theory Spec2Isabelle
  imports Complex_Main "HOL-Library.Word"
begin

unbundle bit_operations_syntax

section \<open>Byte buffers and the unshuffle stage\<close>

text \<open>
  \<^verbatim>\<open>bytes\<close> objects are lists of 8-bit words, \<^verbatim>\<open>np.uint16\<close> arrays are lists of
  16-bit words. \<^verbatim>\<open>ndarray.tobytes()\<close> writes every sample in the byte order of the host;
  the hosts considered are little-endian (x86-64, AArch64), so a sample is written low
  byte first.
\<close>

type_synonym byte = "8 word"
type_synonym uint16 = "16 word"

definition tobytes_uint16 :: "uint16 list \<Rightarrow> byte list" where
  "tobytes_uint16 ws = concat (map (\<lambda>w. [ucast w, ucast (drop_bit 8 w)]) ws)"

text \<open>
  \<^verbatim>\<open>
  def unshuffle_uint16(data):
      arr = np.frombuffer(data, dtype=np.uint8)
      n = arr.size // 2
      low = arr[:n].astype(np.uint16)
      high = arr[n:2*n].astype(np.uint16)
      combined = low + (high << 8)
      return combined.tobytes()
  \<close>
  The slice \<^verbatim>\<open>arr[n:2*n]\<close> is \<open>take n (drop n arr)\<close>; \<open>+\<close> and \<open><<\<close> are those of
  \<^verbatim>\<open>np.uint16\<close>, which wrap modulo \<open>2 ^ 16\<close>, as they do on \<^typ>\<open>uint16\<close>.
  \<open>unshuffle_combined\<close> is the array \<^verbatim>\<open>combined\<close>.
\<close>

definition unshuffle_combined :: "byte list \<Rightarrow> uint16 list" where
  "unshuffle_combined data =
     (let n = length data div 2;
          low = map ucast (take n data) :: uint16 list;
          high = map ucast (take n (drop n data)) :: uint16 list
      in map2 (\<lambda>l h. l + push_bit 8 h) low high)"

definition unshuffle_uint16 :: "byte list \<Rightarrow> byte list" where
  "unshuffle_uint16 data = tobytes_uint16 (unshuffle_combined data)"

text \<open>
  Modelled from the spec: the shuffle itself is done by the program that wrote the file
  and is not part of this repository. It is "the byte-plane regrouping that writes all
  low bytes first and then all high bytes" of a buffer of 16-bit little-endian samples.
\<close>

fun low_bytes :: "byte list \<Rightarrow> byte list" where
  "low_bytes (l # h # xs) = l # low_bytes xs"
| "low_bytes _ = []"

fun high_bytes :: "byte list \<Rightarrow> byte list" where
  "high_bytes (l # h # xs) = h # high_bytes xs"
| "high_bytes _ = []"

definition shuffle_uint16 :: "byte list \<Rightarrow> byte list" where
  "shuffle_uint16 x = low_bytes x @ high_bytes x"


section \<open>The container header parser\<close>

text \<open>
  Attribute values are Python \<^verbatim>\<open>str\<close> objects. They are modelled as strings of 8-bit
  characters, read as the code points 0 to 255; code points beyond 255 are outside the
  model. An exception is a value of \<open>py_error\<close>.
\<close>

datatype py_error = ValueError | AttributeError | IndexError

subsection \<open>\<^verbatim>\<open>int(str)\<close>, \<^verbatim>\<open>str.split(sep)\<close> and \<^verbatim>\<open>str.lower()\<close>\<close>

text \<open>
  \<^verbatim>\<open>int(s)\<close> in base 10, as CPython's \<^verbatim>\<open>PyLong_FromString\<close> reads it: white space on
  both sides is skipped, one sign may follow, then come decimal digits, where single
  underscores may stand between two digits; anything else is a \<^verbatim>\<open>ValueError\<close>
  (\<open>None\<close>). The white space of \<^verbatim>\<open>int\<close> below code point 256 is tab, line feed,
  vertical tab, form feed, carriage return, space, U+0085 and U+00A0. CPython 3.11 and
  later also refuse a literal of more than 4300 digits unless that limit is lifted;
  \<open>py_int\<close> has no such limit.
\<close>

definition int_space :: "char \<Rightarrow> bool" where
  "int_space c =
     (c \<in> set [CHR 0x09, CHR 0x0A, CHR 0x0B, CHR 0x0C, CHR 0x0D, CHR 0x20, CHR 0x85, CHR 0xA0])"

definition is_digit :: "char \<Rightarrow> bool" where
  "is_digit c = (c \<in> set ''0123456789'')"

definition digit_value :: "char \<Rightarrow> nat" where
  "digit_value c = of_char c - 48"

definition decimal_value :: "string \<Rightarrow> nat" where
  "decimal_value ds = foldl (\<lambda>acc d. 10 * acc + digit_value d) 0 ds"

fun double_underscore :: "string \<Rightarrow> bool" where
  "double_underscore (a # b # cs) =
     ((a = CHR ''_'' \<and> b = CHR ''_'') \<or> double_underscore (b # cs))"
| "double_underscore _ = False"

definition py_int :: "string \<Rightarrow> int option" where
  "py_int s =
     (let t = dropWhile int_space s;
          neg = (t \<noteq> [] \<and> hd t = CHR ''-'');
          u = (if t \<noteq> [] \<and> (hd t = CHR ''+'' \<or> hd t = CHR ''-'') then tl t else t);
          body = takeWhile (\<lambda>c. is_digit c \<or> c = CHR ''_'') u;
          rest = dropWhile (\<lambda>c. is_digit c \<or> c = CHR ''_'') u
      in if body = [] \<or> hd body = CHR ''_'' \<or> last body = CHR ''_'' \<or> double_underscore body
            \<or> dropWhile int_space rest \<noteq> []
         then None
         else Some ((if neg then - 1 else 1) * int (decimal_value (filter is_digit body))))"

text \<open>
  \<^verbatim>\<open>s.split(sep)\<close> for a separator that is not empty (the source only passes the
  literals \<^verbatim>\<open>":"\<close> and \<^verbatim>\<open>"+sh:"\<close>): the string is cut at every occurrence of the
  separator, found from left to right without overlap. The result is never empty.
\<close>

function py_split_from :: "string \<Rightarrow> string \<Rightarrow> string \<Rightarrow> string list" where
  "py_split_from sep acc [] = [rev acc]"
| "py_split_from sep acc (c # cs) =
     (if sep \<noteq> [] \<and> take (length sep) (c # cs) = sep
      then rev acc # py_split_from sep [] (drop (length sep) (c # cs))
      else py_split_from sep (c # acc) cs)"
  by pat_completeness auto
termination
  by (relation "measure (\<lambda>(sep, acc, s). length s)") auto

definition py_split :: "string \<Rightarrow> string \<Rightarrow> string list" where
  "py_split sep s = py_split_from sep [] s"

text \<open>
  \<^verbatim>\<open>s.lower()\<close> on code points below 256: A to Z and the capital letters of Latin-1
  (U+00C0 to U+00DE without the multiplication sign U+00D7) move up by 32.
\<close>

definition py_lower_char :: "char \<Rightarrow> char" where
  "py_lower_char c =
     (let n = of_char c :: nat
      in if (65 \<le> n \<and> n \<le> 90) \<or> (192 \<le> n \<and> n \<le> 214) \<or> (216 \<le> n \<and> n \<le> 222)
         then char_of (n + 32) else c)"

definition py_lower :: "string \<Rightarrow> string" where
  "py_lower s = map py_lower_char s"

subsection \<open>\<^verbatim>\<open>parse_xisf_header\<close>\<close>

text \<open>
  The attributes of the \<^verbatim>\<open><Image>\<close> element, as ElementTree holds them: a dictionary
  from names to values, here an association list read with \<open>map_of\<close>.
  \<^verbatim>\<open>image_elem.get(k, d)\<close> is \<open>elem_get attrs k d\<close>.
\<close>

type_synonym attrib = "(string \<times> string) list"

definition elem_get :: "attrib \<Rightarrow> string \<Rightarrow> string \<Rightarrow> string" where
  "elem_get attrs k d = (case map_of attrs k of None \<Rightarrow> d | Some v \<Rightarrow> v)"

text \<open>
  Line 49: \<^verbatim>\<open>width, height, channels = map(int, geometry.split(":"))\<close>. Unpacking
  raises \<^verbatim>\<open>ValueError\<close> when there are not exactly three fields, and so does \<^verbatim>\<open>int\<close>
  on a field that is no integer.
\<close>

definition parse_geometry :: "string \<Rightarrow> py_error + int \<times> int \<times> int" where
  "parse_geometry geometry =
     (case map py_int (py_split '':'' geometry) of
        [Some w, Some h, Some c] \<Rightarrow> Inr (w, h, c)
      | _ \<Rightarrow> Inl ValueError)"

text \<open>
  Lines 53 to 57:
  \<^verbatim>\<open>
  parts = location.split(":")
  if parts[0] != "attachment":
      raise ValueError("Nur 'attachment'-Location wird unterstuetzt.")
  data_offset = int(parts[1])
  compressed_size = int(parts[2])
  \<close>
  \<^verbatim>\<open>parts[1]\<close> and \<^verbatim>\<open>parts[2]\<close> raise \<^verbatim>\<open>IndexError\<close> when the field is not there.
\<close>

definition parse_location :: "string \<Rightarrow> py_error + int \<times> int" where
  "parse_location location =
     (let parts = py_split '':'' location
      in if hd parts \<noteq> ''attachment'' then Inl ValueError
         else (case tl parts of
                 [] \<Rightarrow> Inl IndexError
               | p1 # rest \<Rightarrow>
                   (case py_int p1 of
                      None \<Rightarrow> Inl ValueError
                    | Some data_offset \<Rightarrow>
                        (case rest of
                           [] \<Rightarrow> Inl IndexError
                         | p2 # _ \<Rightarrow>
                             (case py_int p2 of
                                None \<Rightarrow> Inl ValueError
                              | Some compressed_size \<Rightarrow> Inr (data_offset, compressed_size))))))"

text \<open>
  Lines 62 to 76, which yield \<^verbatim>\<open>(uncompressed_size, item_size)\<close>:
  \<^verbatim>\<open>
  if compression != "none":
      try:
          comp_parts = compression.split("+sh:")
          if len(comp_parts) == 2:
              uncompressed_size = int(comp_parts[1].split(":")[0])
              item_size = int(comp_parts[1].split(":")[1])
          else:
              uncompressed_size = width * height * bytes_per_pixel
              item_size = 1
      except Exception:
          uncompressed_size = width * height * bytes_per_pixel
          item_size = 1
  else:
      uncompressed_size = width * height * bytes_per_pixel
      item_size = 1
  \<close>
  Every exception of the \<^verbatim>\<open>try\<close> block (\<^verbatim>\<open>ValueError\<close> of \<^verbatim>\<open>int\<close>, \<^verbatim>\<open>IndexError\<close> of
  \<^verbatim>\<open>[1]\<close>) ends in the \<^verbatim>\<open>except\<close> branch.
\<close>

definition parse_compression :: "string \<Rightarrow> int \<Rightarrow> int \<Rightarrow> int \<Rightarrow> int \<times> int" where
  "parse_compression compression w h bytes_per_pixel =
     (if compression \<noteq> ''none''
      then (let comp_parts = py_split ''+sh:'' compression
            in if length comp_parts = 2
               then (let fields = py_split '':'' (comp_parts ! 1)
                     in case py_int (hd fields) of
                          None \<Rightarrow> (w * h * bytes_per_pixel, 1)
                        | Some usize \<Rightarrow>
                            (case tl fields of
                               [] \<Rightarrow> (w * h * bytes_per_pixel, 1)
                             | f1 # _ \<Rightarrow>
                                 (case py_int f1 of
                                    None \<Rightarrow> (w * h * bytes_per_pixel, 1)
                                  | Some isize \<Rightarrow> (usize, isize))))
               else (w * h * bytes_per_pixel, 1))
      else (w * h * bytes_per_pixel, 1))"

text \<open>
  \<^verbatim>\<open>parse_xisf_header\<close> from line 45 on. Lines 35 to 44 find the text between
  \<^verbatim>\<open><?xml\<close> and \<^verbatim>\<open></xisf>\<close> in the file (\<^verbatim>\<open>ValueError\<close> when a marker is missing) and
  hand it to ElementTree (which raises on a syntax error); \<open>xml_full\<close> is that text and
  \<open>image_elem\<close> what \<^verbatim>\<open>root.find("n:Image", ns)\<close> returned: \<open>None\<close>, or the attributes
  of the element. \<^verbatim>\<open>geometry\<close> is \<^verbatim>\<open>None\<close> when the attribute is absent, and
  \<^verbatim>\<open>None.split\<close> is an \<^verbatim>\<open>AttributeError\<close>.
\<close>

text \<open>
  The dictionary that \<^verbatim>\<open>parse_xisf_header\<close> returns, as a record.
\<close>

record xisf_header =
  width :: int
  height :: int
  channels :: int
  sample_format :: string
  compression :: string
  offset :: int
  compressed_size :: int
  uncompressed_size :: int
  item_size :: int
  xml_header :: string

definition parse_xisf_header :: "string \<Rightarrow> attrib option \<Rightarrow> py_error + xisf_header" where
  "parse_xisf_header xml_full image_elem =
     (case image_elem of
        None \<Rightarrow> Inl ValueError
      | Some attrs \<Rightarrow>
          (case map_of attrs ''geometry'' of
             None \<Rightarrow> Inl AttributeError
           | Some geometry \<Rightarrow>
               (case parse_geometry geometry of
                  Inl e \<Rightarrow> Inl e
                | Inr (w, h, c) \<Rightarrow>
                    (let sformat = elem_get attrs ''sampleFormat'' ''UInt16'';
                         compr = py_lower (elem_get attrs ''compression'' ''none'');
                         location = elem_get attrs ''location'' ''attachment:0:0''
                     in case parse_location location of
                          Inl e \<Rightarrow> Inl e
                        | Inr (data_offset, csize) \<Rightarrow>
                            if py_lower sformat = ''uint16''
                            then (let bytes_per_pixel = 2;
                                      (usize, isize) = parse_compression compr w h bytes_per_pixel
                                  in Inr \<lparr>width = w, height = h, channels = c,
                                          sample_format = sformat, compression = compr,
                                          offset = data_offset, compressed_size = csize,
                                          uncompressed_size = usize, item_size = isize,
                                          xml_header = xml_full\<rparr>)
                            else Inl ValueError))))"


subsection \<open>Well-formed attribute values\<close>

text \<open>
  The two forms that the properties of the parser speak about. A geometry "of the form
  W:H:C with integer fields" has exactly three fields between colons, each of which
  \<^verbatim>\<open>int\<close> accepts. A compression value has a well-formed shuffle suffix when \<^verbatim>\<open>+sh:\<close>
  occurs in it once and is followed by at least two fields between colons, of which
  \<^verbatim>\<open>int\<close> accepts the first two; the suffix is malformed otherwise.
\<close>

definition geometry_form :: "string \<Rightarrow> bool" where
  "geometry_form g =
     (let fields = py_split '':'' g
      in length fields = 3 \<and> (\<forall>f \<in> set fields. py_int f \<noteq> None))"

definition sh_suffix_wellformed :: "string \<Rightarrow> bool" where
  "sh_suffix_wellformed c =
     (case py_split ''+sh:'' c of
        [base, suffix] \<Rightarrow>
          (case py_split '':'' suffix of
             u # i # _ \<Rightarrow> py_int u \<noteq> None \<and> py_int i \<noteq> None
           | _ \<Rightarrow> False)
      | _ \<Rightarrow> False)"


section \<open>The tone map and the display\<close>

text \<open>
  A NumPy array is its shape and its elements in row-major order. An operation that
  NumPy applies element by element is \<open>map_elems\<close>; it keeps the shape.
\<close>

record 'a ndarray =
  shape :: "nat list"
  elems :: "'a list"

definition map_elems :: "('a \<Rightarrow> 'b) \<Rightarrow> 'a ndarray \<Rightarrow> 'b ndarray" where
  "map_elems f a = \<lparr>shape = shape a, elems = map f (elems a)\<rparr>"

text \<open>
  \<^verbatim>\<open>
  def asinh_stretch(img_norm, stretch_factor):
      if stretch_factor <= 0:
          return img_norm
      return np.arcsinh(img_norm * stretch_factor) / np.arcsinh(stretch_factor)
  \<close>
  on one element of \<^verbatim>\<open>img_norm\<close>. Sample values and the stretch factor are real numbers
  here: the rounding of the floating-point operations is not part of the model.
\<close>

definition asinh_stretch :: "real \<Rightarrow> real \<Rightarrow> real" where
  "asinh_stretch img_norm stretch_factor =
     (if stretch_factor \<le> 0 then img_norm
      else arsinh (img_norm * stretch_factor) / arsinh stretch_factor)"

text \<open>
  The parameters of the tone map are the tuple
  \<^verbatim>\<open>(effective_stretch, gamma, brightness, contrast)\<close>.
\<close>

type_synonym params = "real \<times> real \<times> real \<times> real"

text \<open>
  Lines 837 to 840 and 844 on one element, with real numbers for the samples and the
  parameters. \<^verbatim>\<open>np.clip(a, 0, 1)\<close> is \<open>np_clip a 0 1\<close>; \<^verbatim>\<open>np.power\<close> is \<open>powr\<close>, which
  agrees with it on a base that is not negative and an exponent above 0;
  \<^verbatim>\<open>astype(np.uint8)\<close> cuts the fraction off.
\<close>

definition np_clip :: "real \<Rightarrow> real \<Rightarrow> real \<Rightarrow> real" where
  "np_clip x lo hi = min (max x lo) hi"

definition tone_map :: "params \<Rightarrow> real \<Rightarrow> real" where
  "tone_map current_params x =
     (case current_params of (effective_stretch, gamma, brightness, contrast) \<Rightarrow>
        (let t1 = asinh_stretch x effective_stretch;
             t2 = t1 powr (if gamma \<noteq> 0 then 1 / gamma else 1);
             t3 = np_clip (t2 * brightness) 0 1;
             t4 = np_clip ((t3 - 0.5) * contrast + 0.5) 0 1
         in t4))"

definition scale_uint8 :: "real \<Rightarrow> byte" where
  "scale_uint8 t = word_of_int \<lfloor>np_clip (t * 255) 0 255\<rfloor>"

text \<open>
  The state of the viewer that decoding and display use. \<open>cache\<close> is the
  \<^verbatim>\<open>OrderedDict\<close> of decoded images, oldest key first; \<open>preview_cache\<close> holds the keys of
  the dictionary of previews.
\<close>

record 'a viewer =
  cache :: "(string \<times> 'a ndarray) list"
  original_img_norm :: "'a ndarray option"
  cached_transformed :: "'a ndarray option"
  last_transform_params :: "params option"
  displaying_preview :: bool
  current_file :: "string option"
  preview_cache :: "string list"

text \<open>
  What \<^verbatim>\<open>update_display_image\<close> and the loaders leave on the screen: the cached preview,
  the array handed to \<^verbatim>\<open>Image.fromarray\<close> with its mode, an empty label
  (\<^verbatim>\<open>self.image_label.configure(image=None)\<close>), the error dialog of
  \<^verbatim>\<open>messagebox.showerror\<close> for an exception, or the dialog "No image data found in this
  FITS file".
\<close>

datatype pil_mode = L | RGB

datatype 'b display =
  Preview
  | Fromarray pil_mode "'b ndarray"
  | LabelCleared
  | ErrorBox py_error
  | NoDataBox

text \<open>
  \<^verbatim>\<open>np.allclose(a, b)\<close> with its default tolerances:
  \<open>\<bar>a - b\<bar> \<le> 1e-8 + 1e-5 * \<bar>b\<bar>\<close> for every component.
\<close>

definition isclose :: "real \<Rightarrow> real \<Rightarrow> bool" where
  "isclose a b \<longleftrightarrow> \<bar>a - b\<bar> \<le> 1 / 10 ^ 8 + 1 / 10 ^ 5 * \<bar>b\<bar>"

definition np_allclose :: "params \<Rightarrow> params \<Rightarrow> bool" where
  "np_allclose p q =
     (case (p, q) of ((a1, a2, a3, a4), (b1, b2, b3, b4)) \<Rightarrow>
        isclose a1 b1 \<and> isclose a2 b2 \<and> isclose a3 b3 \<and> isclose a4 b4)"

text \<open>
  \<^verbatim>\<open>update_display_image\<close>, lines 809 to 859, up to the \<^verbatim>\<open>pil_image_to_display\<close> that
  the rest of the function scales to the window.
  \<^verbatim>\<open>
  if self.displaying_preview and self.current_file and self.current_file in self.preview_cache:
      pil_image_to_display = self.preview_cache[self.current_file]
  elif self.original_img_norm is not None:
      ...
      current_params = (effective_stretch, gamma, brightness, contrast)
      if self.last_transform_params is not None and np.allclose(self.last_transform_params, current_params) and self.cached_transformed is not None:
          transformed = self.cached_transformed
      else:
          transformed = asinh_stretch(self.original_img_norm, effective_stretch)
          transformed = np.power(transformed, 1/gamma if gamma != 0 else 1)
          transformed = np.clip(transformed * brightness, 0, 1)
          transformed = np.clip((transformed - 0.5) * contrast + 0.5, 0, 1)
          self.cached_transformed = transformed
          self.last_transform_params = current_params
      img_scaled = (transformed * 255).clip(0, 255).astype(np.uint8)
      if len(img_scaled.shape) == 2:
          pil_image_to_display = Image.fromarray(img_scaled, mode='L')
      elif len(img_scaled.shape) == 3 and img_scaled.shape[2] == 3:
          pil_image_to_display = Image.fromarray(img_scaled, mode='RGB')
      else:
          self.image_label.configure(image=None)
          self.image_label.image = None
          return
  else:
      self.image_label.configure(image=None)
      self.image_label.image = None
      return
  \<close>
  The four lines that compute \<^verbatim>\<open>transformed\<close> work element by element; \<open>tone p\<close> is
  what they do to one element under the parameters \<open>p\<close>, and \<open>scale8\<close> what the line
  of \<^verbatim>\<open>img_scaled\<close> does to one element. \<open>current_params\<close> are the values read from the
  sliders. No statement of these lines raises, so the result is always \<open>Inr\<close>.
\<close>

definition update_display_image ::
  "(params \<Rightarrow> 'a \<Rightarrow> 'a) \<Rightarrow> ('a \<Rightarrow> 'b) \<Rightarrow> params \<Rightarrow> 'a viewer
     \<Rightarrow> py_error + 'a viewer \<times> 'b display" where
  "update_display_image tone scale8 current_params v =
     (if displaying_preview v
         \<and> (case current_file v of None \<Rightarrow> False
             | Some f \<Rightarrow> f \<noteq> [] \<and> f \<in> set (preview_cache v))
      then Inr (v, Preview)
      else
        (case original_img_norm v of
           Some img \<Rightarrow>
             (let reuse = (case last_transform_params v of
                             None \<Rightarrow> False
                           | Some lp \<Rightarrow> np_allclose lp current_params
                                        \<and> cached_transformed v \<noteq> None);
                  transformed = (if reuse then the (cached_transformed v)
                                 else map_elems (tone current_params) img);
                  v' = (if reuse then v
                        else v\<lparr>cached_transformed := Some transformed,
                               last_transform_params := Some current_params\<rparr>);
                  img_scaled = map_elems scale8 transformed
              in if length (shape img_scaled) = 2
                 then Inr (v', Fromarray L img_scaled)
                 else if length (shape img_scaled) = 3 \<and> shape img_scaled ! 2 = 3
                 then Inr (v', Fromarray RGB img_scaled)
                 else Inr (v', LabelCleared))
         | None \<Rightarrow> Inr (v, LabelCleared)))"

text \<open>
  The first test of \<^verbatim>\<open>update_display_image\<close>: a preview of the current file is shown.
\<close>

definition shows_preview :: "'a viewer \<Rightarrow> bool" where
  "shows_preview v \<longleftrightarrow> displaying_preview v
         \<and> (case current_file v of None \<Rightarrow> False
             | Some f \<Rightarrow> f \<noteq> [] \<and> f \<in> set (preview_cache v))"

section \<open>The cache of decoded images\<close>

text \<open>
  \<^verbatim>\<open>self.cache[file_path] = img_norm\<close> on an \<^verbatim>\<open>OrderedDict\<close>: a new key goes to the
  end, a key that is there keeps its place. \<^verbatim>\<open>self.cache.popitem(last=False)\<close> removes
  the first entry.
\<close>

definition od_setitem :: "string \<Rightarrow> 'v \<Rightarrow> (string \<times> 'v) list \<Rightarrow> (string \<times> 'v) list" where
  "od_setitem k x od =
     (if k \<in> set (map fst od) then map (\<lambda>(k', x'). if k' = k then (k', x) else (k', x')) od
      else od @ [(k, x)])"

text \<open>
  \<^verbatim>\<open>load_xisf_file\<close>, lines 620 to 676. \<open>decoded\<close> is what lines 640 to 661 (reading
  the file, parsing the header, decompressing, normalising) make of the file at
  \<open>file_path\<close>: the normalised image, or the exception raised on the way.
  \<^verbatim>\<open>
  if file_path in self.cache:
      self.original_img_norm = self.cache[file_path]
      self.cached_transformed = None
      self.last_transform_params = None
      ...
      self.update_display_image()
      return
  try:
      ...
      self.original_img_norm = img_norm
      self.cached_transformed = None
      self.last_transform_params = None
      self.cache[file_path] = img_norm
      if len(self.cache) > 5: # LRU Cache-Groesse
          self.cache.popitem(last=False)
      self.update_display_image()
  except Exception as e:
      messagebox.showerror("Error", f"Failed to open XISF file:\n{e}")
      self.original_img_norm = None # Fehlerfall
      self.image_label.configure(image=None) # Bild leeren
      self.image_label.image = None
  \<close>
\<close>

definition cache_insert :: "string \<Rightarrow> 'a ndarray \<Rightarrow> 'a viewer \<Rightarrow> 'a viewer" where
  "cache_insert file_path img_norm v =
     (let v1 = v\<lparr>cache := od_setitem file_path img_norm (cache v)\<rparr>
      in if length (cache v1) > 5 then v1\<lparr>cache := tl (cache v1)\<rparr> else v1)"

definition load_xisf_file ::
  "(params \<Rightarrow> 'a \<Rightarrow> 'a) \<Rightarrow> ('a \<Rightarrow> 'b) \<Rightarrow> params \<Rightarrow> (py_error + 'a ndarray) \<Rightarrow> string
     \<Rightarrow> 'a viewer \<Rightarrow> py_error + 'a viewer \<times> 'b display" where
  "load_xisf_file tone scale8 current_params decoded file_path v =
     (if file_path \<in> set (map fst (cache v))
      then update_display_image tone scale8 current_params
             (v\<lparr>original_img_norm := map_of (cache v) file_path,
                cached_transformed := None, last_transform_params := None\<rparr>)
      else
        (case decoded of
           Inl e \<Rightarrow> Inr (v\<lparr>original_img_norm := None\<rparr>, ErrorBox e)
         | Inr img_norm \<Rightarrow>
             (let v1 = cache_insert file_path img_norm
                         (v\<lparr>original_img_norm := Some img_norm,
                            cached_transformed := None, last_transform_params := None\<rparr>)
              in case update_display_image tone scale8 current_params v1 of
                   Inl e \<Rightarrow> Inr (v1\<lparr>original_img_norm := None\<rparr>, ErrorBox e)
                 | Inr r \<Rightarrow> Inr r)))"

text \<open>
  \<^verbatim>\<open>load_fits_file\<close>, lines 679 to 720, has the same shape; \<open>decoded\<close> is \<open>Inr None\<close>
  when no HDU of the file has data (an error dialog, and nothing else changes).
\<close>

definition load_fits_file ::
  "(params \<Rightarrow> 'a \<Rightarrow> 'a) \<Rightarrow> ('a \<Rightarrow> 'b) \<Rightarrow> params \<Rightarrow> (py_error + 'a ndarray option) \<Rightarrow> string
     \<Rightarrow> 'a viewer \<Rightarrow> py_error + 'a viewer \<times> 'b display" where
  "load_fits_file tone scale8 current_params decoded file_path v =
     (if file_path \<in> set (map fst (cache v))
      then update_display_image tone scale8 current_params
             (v\<lparr>original_img_norm := map_of (cache v) file_path,
                cached_transformed := None, last_transform_params := None\<rparr>)
      else
        (case decoded of
           Inl e \<Rightarrow> Inr (v\<lparr>original_img_norm := None\<rparr>, ErrorBox e)
         | Inr None \<Rightarrow> Inr (v, NoDataBox)
         | Inr (Some img_norm) \<Rightarrow>
             (let v1 = cache_insert file_path img_norm
                         (v\<lparr>original_img_norm := Some img_norm,
                            cached_transformed := None, last_transform_params := None\<rparr>)
              in case update_display_image tone scale8 current_params v1 of
                   Inl e \<Rightarrow> Inr (v1\<lparr>original_img_norm := None\<rparr>, ErrorBox e)
                 | Inr r \<Rightarrow> Inr r)))"

text \<open>
  The viewer as \<^verbatim>\<open>__init__\<close> leaves it, and a run of loads: each request names a file,
  says whether it is a FITS file, and gives what decoding it yields.
\<close>

definition init_viewer :: "'a viewer" where
  "init_viewer = \<lparr>cache = [], original_img_norm = None, cached_transformed = None,
                  last_transform_params = None, displaying_preview = False,
                  current_file = None, preview_cache = []\<rparr>"

datatype 'a request =
  LoadXisf string "py_error + 'a ndarray"
  | LoadFits string "py_error + 'a ndarray option"

fun load_file ::
  "(params \<Rightarrow> 'a \<Rightarrow> 'a) \<Rightarrow> ('a \<Rightarrow> 'b) \<Rightarrow> params \<Rightarrow> 'a request \<Rightarrow> 'a viewer
     \<Rightarrow> py_error + 'a viewer \<times> 'b display" where
  "load_file tone scale8 p (LoadXisf file_path decoded) v =
     load_xisf_file tone scale8 p decoded file_path v"
| "load_file tone scale8 p (LoadFits file_path decoded) v =
     load_fits_file tone scale8 p decoded file_path v"

fun load_files ::
  "(params \<Rightarrow> 'a \<Rightarrow> 'a) \<Rightarrow> ('a \<Rightarrow> 'b) \<Rightarrow> params \<Rightarrow> 'a request list \<Rightarrow> 'a viewer
     \<Rightarrow> py_error + 'a viewer" where
  "load_files tone scale8 p [] v = Inr v"
| "load_files tone scale8 p (r # rs) v =
     (case load_file tone scale8 p r v of
        Inl e \<Rightarrow> Inl e
      | Inr (v', d) \<Rightarrow> load_files tone scale8 p rs v')"


text \<open>
  What a load does to the dictionary alone: nothing when the file is in the cache or
  cannot be decoded; otherwise the image is stored, and the first entry removed when
  there are more than five.
\<close>

definition trim :: "'v list \<Rightarrow> 'v list" where
  "trim c = (if length c > 5 then tl c else c)"

definition cache_after :: "'a request \<Rightarrow> (string \<times> 'a ndarray) list \<Rightarrow> (string \<times> 'a ndarray) list" where
  "cache_after r c =
     (case r of
        LoadXisf f d \<Rightarrow>
          (if f \<in> set (map fst c) then c
           else case d of Inl e \<Rightarrow> c | Inr img \<Rightarrow> trim (od_setitem f img c))
      | LoadFits f d \<Rightarrow>
          (if f \<in> set (map fst c) then c
           else case d of Inl e \<Rightarrow> c | Inr None \<Rightarrow> c | Inr (Some img) \<Rightarrow> trim (od_setitem f img c)))"


section \<open>Properties\<close>

subsection \<open>The unshuffle stage\<close>

lemma combine_add_eq_or:
  "(ucast (l::byte) :: uint16) + push_bit 8 (ucast (h::byte)) = ucast l OR push_bit 8 (ucast h)"
  by (rule disjunctive_add) (auto simp: bit_simps dest: bit_imp_le_length)

lemma ucast_combine_low:
  "ucast ((ucast (l::byte) :: uint16) OR push_bit 8 (ucast (h::byte))) = l"
  by (rule bit_word_eqI) (auto simp add: bit_simps)

lemma ucast_combine_high:
  "ucast (drop_bit 8 (ucast (l::byte) :: uint16) OR
          drop_bit 8 (push_bit 8 (ucast (h::byte) :: uint16))) = h"
  by (rule bit_word_eqI) (auto simp add: bit_simps dest: bit_imp_le_length)

lemma length_low_bytes: "length (low_bytes x) = length x div 2"
  by (induction x rule: low_bytes.induct) auto

lemma length_high_bytes: "length (high_bytes x) = length x div 2"
  by (induction x rule: high_bytes.induct) auto

lemma length_unshuffle_combined: "length (unshuffle_combined data) = length data div 2"
  by (simp add: unshuffle_combined_def Let_def)

lemma length_tobytes_uint16: "length (tobytes_uint16 ws) = 2 * length ws"
  by (induction ws) (auto simp: tobytes_uint16_def)

lemma nth_unshuffle_combined:
  assumes "length data = 2 * n" and "i < n"
  shows "unshuffle_combined data ! i =
         ucast (take n data ! i) OR push_bit 8 (ucast (drop n data ! i))"
  using assms by (simp add: unshuffle_combined_def Let_def combine_add_eq_or)

lemma unshuffle_combined_shuffle:
  "unshuffle_combined (shuffle_uint16 x) =
   map2 (\<lambda>l h. ucast l OR push_bit 8 (ucast h)) (low_bytes x) (high_bytes x)"
  by (auto simp add: unshuffle_combined_def shuffle_uint16_def Let_def length_low_bytes
        length_high_bytes combine_add_eq_or zip_map_map)

lemma tobytes_interleave:
  "even (length x) \<Longrightarrow>
   tobytes_uint16 (map2 (\<lambda>l h. ucast l OR push_bit 8 (ucast h)) (low_bytes x) (high_bytes x)) = x"
  by (induction x rule: low_bytes.induct)
     (auto simp: tobytes_uint16_def ucast_combine_low ucast_combine_high)

lemma unshuffle_combined_butlast:
  assumes "odd (length data)"
  shows "unshuffle_combined (butlast data) = unshuffle_combined data"
proof -
  define n where "n = length data div 2"
  have len: "length data = 2 * n + 1"
    using assms by (auto simp: n_def elim: oddE)
  have t1: "take n (butlast data) = take n data"
    using len by (simp add: butlast_conv_take)
  have t2: "take n (drop n (butlast data)) = take n (drop n data)"
    using len by (simp add: butlast_conv_take drop_take min_def)
  have d1: "length (butlast data) div 2 = n"
    using len by simp
  have d2: "length data div 2 = n"
    by (simp add: n_def)
  show ?thesis
    unfolding unshuffle_combined_def Let_def d1 d2 t1 t2 ..
qed

text \<open>
  C2. A buffer of even length \<open>2 * n\<close> is split at its midpoint into a low half
  \<open>take n data\<close> and a high half \<open>drop n data\<close>, both of length \<open>n\<close>; the \<open>i\<close>-th
  16-bit sample is \<open>low[i] | (high[i] << 8)\<close> (the source adds, which is the same here),
  and the returned bytes are these samples. Consequently unshuffling undoes the shuffle
  of every buffer of even length.
\<close>

theorem unshuffle_uint16_split_roundtrip:
  assumes "length data = 2 * n" and "even (length x)"
  shows "length (take n data) = n \<and> length (drop n data) = n
       \<and> length (unshuffle_combined data) = n
       \<and> (\<forall>i<n. unshuffle_combined data ! i =
                  ucast (take n data ! i) OR push_bit 8 (ucast (drop n data ! i)))
       \<and> unshuffle_uint16 data = tobytes_uint16 (unshuffle_combined data)
       \<and> unshuffle_uint16 (shuffle_uint16 x) = x"
proof -
  have "unshuffle_uint16 (shuffle_uint16 x) = x"
    using assms(2) by (simp add: unshuffle_uint16_def unshuffle_combined_shuffle tobytes_interleave)
  moreover have "\<forall>i<n. unshuffle_combined data ! i =
                  ucast (take n data ! i) OR push_bit 8 (ucast (drop n data ! i))"
    using assms(1) by (simp add: nth_unshuffle_combined)
  moreover have "length (unshuffle_combined data) = n"
    using assms(1) by (simp add: length_unshuffle_combined)
  ultimately show ?thesis
    using assms(1) by (simp add: unshuffle_uint16_def)
qed

theorem unshuffle_uint16_split_roundtrip_witness:
  "length [1, 2, 3, 4 :: byte] = 2 * 2 \<and> even (length [5, 6 :: byte])
   \<and> unshuffle_combined [1, 2, 3, 4] ! 1 = ucast (2 :: byte) OR push_bit 8 (ucast (4 :: byte))
   \<and> unshuffle_uint16 [1, 2, 3, 4] = [1, 3, 2, 4]
   \<and> unshuffle_uint16 (shuffle_uint16 [5, 6]) = [5, 6]"
  using unshuffle_uint16_split_roundtrip [of "[1, 2, 3, 4]" 2 "[5, 6]"]
  by (simp add: unshuffle_uint16_def tobytes_uint16_def unshuffle_combined_def)

text \<open>
  C10. \<^verbatim>\<open>np.frombuffer\<close> with \<^verbatim>\<open>dtype=np.uint8\<close> accepts a buffer of any length and
  no later step of the function can raise, so the function is total. Its result has
  \<open>2 * (L div 2)\<close> bytes for an input of \<open>L\<close> bytes, and the last byte of an input of odd
  length does not influence the result: appending any byte to a buffer of even length
  leaves the result as it was.
\<close>

theorem unshuffle_uint16_odd_length:
  "length (unshuffle_uint16 data) = 2 * (length data div 2)
   \<and> (odd (length data) \<longrightarrow>
        unshuffle_uint16 data = unshuffle_uint16 (butlast data)
        \<and> (\<forall>b. unshuffle_uint16 (butlast data @ [b]) = unshuffle_uint16 data))"
proof -
  have len: "length (unshuffle_uint16 data) = 2 * (length data div 2)"
    by (simp add: unshuffle_uint16_def length_tobytes_uint16 length_unshuffle_combined)
  have drop_last: "unshuffle_uint16 ys = unshuffle_uint16 (butlast ys)" if "odd (length ys)" for ys
    using that by (simp add: unshuffle_uint16_def unshuffle_combined_butlast)
  have "unshuffle_uint16 (butlast data @ [b]) = unshuffle_uint16 data" if "odd (length data)" for b
  proof -
    from that have "data \<noteq> []" by auto
    then have "odd (length (butlast data @ [b]))" using that by simp
    then have "unshuffle_uint16 (butlast data @ [b]) = unshuffle_uint16 (butlast data)"
      using drop_last [of "butlast data @ [b]"] by simp
    then show ?thesis using drop_last [OF that] by simp
  qed
  then show ?thesis using len drop_last by blast
qed

theorem unshuffle_uint16_odd_length_witness:
  "odd (length [1, 2, 3, 4, 9 :: byte])
   \<and> length (unshuffle_uint16 [1, 2, 3, 4, 9]) = 4
   \<and> unshuffle_uint16 [1, 2, 3, 4, 9] = unshuffle_uint16 [1, 2, 3, 4]
   \<and> unshuffle_uint16 [1, 2, 3, 4, 200] = unshuffle_uint16 [1, 2, 3, 4, 9]"
  using unshuffle_uint16_odd_length [of "[1, 2, 3, 4, 9]"]
  by (simp add: unshuffle_uint16_def unshuffle_combined_def tobytes_uint16_def)


subsection \<open>The header parser\<close>

lemma py_split_from_nonempty: "py_split_from sep acc s \<noteq> []"
  by (induction sep acc s rule: py_split_from.induct) auto

lemma py_split_nonempty: "py_split sep s \<noteq> []"
  by (simp add: py_split_def py_split_from_nonempty)

lemma parse_geometry_Inr_iff:
  "parse_geometry g = Inr (w, h, c) \<longleftrightarrow> map py_int (py_split '':'' g) = [Some w, Some h, Some c]"
  by (auto simp: parse_geometry_def split: list.splits option.splits)

lemma parse_geometry_Inl: "parse_geometry g = Inl e \<Longrightarrow> e = ValueError"
  by (auto simp: parse_geometry_def split: list.splits option.splits)

lemma geometry_form_iff:
  "geometry_form g \<longleftrightarrow> (\<exists>w h c. parse_geometry g = Inr (w, h, c))"
  apply (simp add: parse_geometry_Inr_iff geometry_form_def Let_def)
  apply (cases "py_split '':'' g")
   apply simp
  subgoal for a as
    apply (cases as; simp)
    subgoal for b bs
      apply (cases bs; simp)
      subgoal for c cs
        by (cases cs; auto)
      done
    done
  done

lemma parse_compression_none: "parse_compression ''none'' w h b = (w * h * b, 1)"
  by (simp add: parse_compression_def)

lemma parse_compression_malformed:
  "\<not> sh_suffix_wellformed c \<Longrightarrow> parse_compression c w h b = (w * h * b, 1)"
  using py_split_nonempty [of "'':''"]
  by (auto simp: parse_compression_def sh_suffix_wellformed_def Let_def split: list.splits option.splits)


lemma parse_xisf_header_Some:
  "parse_xisf_header xml_full (Some attrs) =
     (case map_of attrs ''geometry'' of
        None \<Rightarrow> Inl AttributeError
      | Some g \<Rightarrow>
          (case parse_geometry g of
             Inl e \<Rightarrow> Inl e
           | Inr (w, h, c) \<Rightarrow>
               (case parse_location (elem_get attrs ''location'' ''attachment:0:0'') of
                  Inl e \<Rightarrow> Inl e
                | Inr (doff, csz) \<Rightarrow>
                    if py_lower (elem_get attrs ''sampleFormat'' ''UInt16'') = ''uint16''
                    then Inr \<lparr>width = w, height = h, channels = c,
                          sample_format = elem_get attrs ''sampleFormat'' ''UInt16'',
                          compression = py_lower (elem_get attrs ''compression'' ''none''),
                          offset = doff, compressed_size = csz,
                          uncompressed_size =
                            fst (parse_compression (py_lower (elem_get attrs ''compression'' ''none'')) w h 2),
                          item_size =
                            snd (parse_compression (py_lower (elem_get attrs ''compression'' ''none'')) w h 2),
                          xml_header = xml_full\<rparr>
                    else Inl ValueError)))"
  by (simp add: parse_xisf_header_def Let_def split: option.splits sum.splits prod.splits)

lemma parse_xisf_header_failure_compression:
  "parse_xisf_header xml_full (Some ((''compression'', v) # attrs)) = Inl e \<longleftrightarrow>
   parse_xisf_header xml_full (Some attrs) = Inl e"
  by (simp add: parse_xisf_header_Some elem_get_def split: option.splits sum.splits prod.splits)


lemmas py_int_eval = py_int_def int_space_def is_digit_def decimal_value_def digit_value_def

lemma parse_geometry_100_50_1: "parse_geometry ''100:50:1'' = Inr (100, 50, 1)"
  by (simp add: parse_geometry_def py_split_def py_int_eval)

lemma parse_location_default: "parse_location ''attachment:0:0'' = Inr (0, 0)"
  by (simp add: parse_location_def py_split_def py_int_eval)

lemma py_lower_UInt16: "py_lower ''UInt16'' = ''uint16''"
  by code_simp

lemma py_lower_none: "py_lower ''none'' = ''none''"
  by code_simp

lemma parse_compression_lz4_sh: "parse_compression ''lz4+sh:20000:2'' w h b = (20000, 2)"
proof -
  have a: "py_split ''+sh:'' ''lz4+sh:20000:2'' = [''lz4'', ''20000:2'']"
    by (simp add: py_split_def)
  have b: "py_split '':'' ''20000:2'' = [''20000'', ''2'']"
    by (simp add: py_split_def)
  have c: "py_int ''20000'' = Some 20000" "py_int ''2'' = Some 2"
    by (simp_all add: py_int_eval)
  show ?thesis
    by (simp add: parse_compression_def a b c)
qed


text \<open>
  C3. A header whose image element carries \<^verbatim>\<open>geometry="100:50:1"\<close>,
  \<^verbatim>\<open>sampleFormat="UInt16"\<close>, \<^verbatim>\<open>compression="none"\<close> and
  \<^verbatim>\<open>location="attachment:128:10000"\<close> (and whatever other attributes) is parsed with
  success, and the result has width 100, height 50, 1 channel, data offset 128 and
  compressed size 10000.
\<close>

theorem parse_xisf_header_example:
  assumes "map_of attrs ''geometry'' = Some ''100:50:1''"
    and "map_of attrs ''sampleFormat'' = Some ''UInt16''"
    and "map_of attrs ''compression'' = Some ''none''"
    and "map_of attrs ''location'' = Some ''attachment:128:10000''"
  shows "parse_xisf_header xml_full (Some attrs) =
         Inr \<lparr>width = 100, height = 50, channels = 1, sample_format = ''UInt16'',
              compression = ''none'', offset = 128, compressed_size = 10000,
              uncompressed_size = 10000, item_size = 1, xml_header = xml_full\<rparr>"
proof -
  have l: "parse_location ''attachment:128:10000'' = Inr (128, 10000)"
    by (simp add: parse_location_def py_split_def py_int_eval)
  show ?thesis
    using assms
    by (simp add: parse_xisf_header_Some elem_get_def parse_geometry_100_50_1 l
          py_lower_UInt16 py_lower_none parse_compression_none)
qed

theorem parse_xisf_header_example_witness:
  "parse_xisf_header ''<xisf/>''
     (Some [(''geometry'', ''100:50:1''), (''sampleFormat'', ''UInt16''),
            (''compression'', ''none''), (''location'', ''attachment:128:10000'')]) =
   Inr \<lparr>width = 100, height = 50, channels = 1, sample_format = ''UInt16'',
        compression = ''none'', offset = 128, compressed_size = 10000,
        uncompressed_size = 10000, item_size = 1, xml_header = ''<xisf/>''\<rparr>"
  by (rule parse_xisf_header_example) simp_all


text \<open>
  C4. Let the image element carry a \<^verbatim>\<open>compression\<close> attribute. If its lower-cased value
  is \<^verbatim>\<open>lz4+sh:20000:2\<close>, every header that parsing returns has uncompressed size 20000
  and item size 2. If the lower-cased value is not \<^verbatim>\<open>none\<close> and its shuffle suffix is
  malformed, every header that parsing returns has uncompressed size
  \<open>width * height * 2\<close> and item size 1. And the suffix never makes parsing fail: parsing
  fails with an error exactly when it fails with that error after the compression has
  been replaced by \<^verbatim>\<open>none\<close>.
\<close>

theorem parse_xisf_header_compression:
  assumes "map_of attrs ''compression'' = Some c"
  shows "(py_lower c = ''lz4+sh:20000:2'' \<longrightarrow>
            (\<forall>hd. parse_xisf_header xml_full (Some attrs) = Inr hd \<longrightarrow>
                  uncompressed_size hd = 20000 \<and> item_size hd = 2))
       \<and> (py_lower c \<noteq> ''none'' \<and> \<not> sh_suffix_wellformed (py_lower c) \<longrightarrow>
            (\<forall>hd. parse_xisf_header xml_full (Some attrs) = Inr hd \<longrightarrow>
                  uncompressed_size hd = width hd * height hd * 2 \<and> item_size hd = 1))
       \<and> (\<forall>e. parse_xisf_header xml_full (Some attrs) = Inl e \<longleftrightarrow>
                parse_xisf_header xml_full (Some ((''compression'', ''none'') # attrs)) = Inl e)"
proof -
  have 1: "uncompressed_size hd = 20000 \<and> item_size hd = 2"
    if "py_lower c = ''lz4+sh:20000:2''" "parse_xisf_header xml_full (Some attrs) = Inr hd" for hd
    using that assms
    by (auto simp: parse_xisf_header_Some elem_get_def parse_compression_lz4_sh
          split: option.splits sum.splits prod.splits if_splits)
  have 2: "uncompressed_size hd = width hd * height hd * 2 \<and> item_size hd = 1"
    if "\<not> sh_suffix_wellformed (py_lower c)" "parse_xisf_header xml_full (Some attrs) = Inr hd" for hd
    using that assms
    by (auto simp: parse_xisf_header_Some elem_get_def parse_compression_malformed
          split: option.splits sum.splits prod.splits if_splits)
  have 3: "parse_xisf_header xml_full (Some attrs) = Inl e \<longleftrightarrow>
           parse_xisf_header xml_full (Some ((''compression'', ''none'') # attrs)) = Inl e" for e
    by (simp add: parse_xisf_header_failure_compression)
  show ?thesis
    using 1 2 3 by blast
qed



theorem parse_xisf_header_compression_witness:
  "map_of [(''geometry'', ''100:50:1''), (''compression'', ''LZ4+sh:20000:2'')] ''compression''
     = Some ''LZ4+sh:20000:2''
   \<and> py_lower ''LZ4+sh:20000:2'' = ''lz4+sh:20000:2''
   \<and> parse_xisf_header []
         (Some [(''geometry'', ''100:50:1''), (''compression'', ''LZ4+sh:20000:2'')]) =
       Inr \<lparr>width = 100, height = 50, channels = 1, sample_format = ''UInt16'',
            compression = ''lz4+sh:20000:2'', offset = 0, compressed_size = 0,
            uncompressed_size = 20000, item_size = 2, xml_header = []\<rparr>
   \<and> map_of [(''geometry'', ''100:50:1''), (''compression'', ''lz4+sh:20000'')] ''compression''
     = Some ''lz4+sh:20000''
   \<and> py_lower ''lz4+sh:20000'' \<noteq> ''none'' \<and> \<not> sh_suffix_wellformed (py_lower ''lz4+sh:20000'')
   \<and> parse_xisf_header []
         (Some [(''geometry'', ''100:50:1''), (''compression'', ''lz4+sh:20000'')]) =
       Inr \<lparr>width = 100, height = 50, channels = 1, sample_format = ''UInt16'',
            compression = ''lz4+sh:20000'', offset = 0, compressed_size = 0,
            uncompressed_size = 10000, item_size = 1, xml_header = []\<rparr>"
  (is "?m1 \<and> ?l1 \<and> ?r1 \<and> ?m2 \<and> ?l2 \<and> ?w2 \<and> ?r2")
proof -
  have m1: ?m1 and m2: ?m2
    by simp_all
  have l1: ?l1 and l2': "py_lower ''lz4+sh:20000'' = ''lz4+sh:20000''"
    by code_simp+
  have l2: ?l2
    by (simp add: l2')
  have w2: ?w2
    by (simp add: l2' sh_suffix_wellformed_def py_split_def py_int_eval)
  note g = parse_geometry_100_50_1 and loc = parse_location_default and f = py_lower_UInt16
  let ?a1 = "[(''geometry'', ''100:50:1''), (''compression'', ''LZ4+sh:20000:2'')]"
  let ?a2 = "[(''geometry'', ''100:50:1''), (''compression'', ''lz4+sh:20000'')]"
  obtain h1 where h1: "parse_xisf_header [] (Some ?a1) = Inr h1"
    by (simp add: parse_xisf_header_Some elem_get_def g loc f)
  obtain h2 where h2: "parse_xisf_header [] (Some ?a2) = Inr h2"
    by (simp add: parse_xisf_header_Some elem_get_def g loc f)
  have "uncompressed_size h1 = 20000 \<and> item_size h1 = 2"
    using parse_xisf_header_compression [OF m1, of "[]"] l1 h1 by blast
  then have r1: ?r1
    using h1 by (auto simp add: parse_xisf_header_Some elem_get_def g loc f l1)
  have "uncompressed_size h2 = width h2 * height h2 * 2 \<and> item_size h2 = 1"
    using parse_xisf_header_compression [OF m2, of "[]"] l2 w2 h2 by blast
  then have r2: ?r2
    using h2 by (auto simp add: parse_xisf_header_Some elem_get_def g loc f l2')
  show ?thesis
    using m1 l1 r1 m2 l2 w2 r2 by blast
qed



text \<open>
  C7, as the claim states it, does not hold: a geometry whose fields are integers that
  are zero or negative is accepted, and the header returned has these values.
\<close>

lemma parse_xisf_header_nonpositive:
  "parse_xisf_header []
     (Some [(''geometry'', ''0:-50:1''), (''sampleFormat'', ''UInt16''),
        (''compression'', ''none''), (''location'', ''attachment:128:0'')]) =
   Inr \<lparr>width = 0, height = - 50, channels = 1, sample_format = ''UInt16'',
        compression = ''none'', offset = 128, compressed_size = 0,
        uncompressed_size = 0, item_size = 1, xml_header = []\<rparr>"
proof -
  have g: "parse_geometry ''0:-50:1'' = Inr (0, - 50, 1)"
    by (simp add: parse_geometry_def py_split_def py_int_eval)
  have l: "parse_location ''attachment:128:0'' = Inr (128, 0)"
    by (simp add: parse_location_def py_split_def py_int_eval)
  show ?thesis
    by (simp add: parse_xisf_header_Some elem_get_def g l py_lower_UInt16 py_lower_none
          parse_compression_none)
qed

theorem parse_xisf_header_geometry_counterexample:
  "parse_xisf_header []
     (Some [(''geometry'', ''0:-50:1''), (''sampleFormat'', ''UInt16''),
        (''compression'', ''none''), (''location'', ''attachment:128:0'')]) =
   Inr \<lparr>width = 0, height = - 50, channels = 1, sample_format = ''UInt16'',
        compression = ''none'', offset = 128, compressed_size = 0,
        uncompressed_size = 0, item_size = 1, xml_header = []\<rparr>"
  by (rule parse_xisf_header_nonpositive)

text \<open>
  C7, amended. When the geometry attribute is absent, parsing fails with
  \<^verbatim>\<open>AttributeError\<close>; when it is present and not of the form W:H:C with integer fields,
  parsing fails with \<^verbatim>\<open>ValueError\<close>. The sign of the fields is not looked at: every
  header that parsing returns has as width, height and channels the values of the three
  fields, as \<^verbatim>\<open>int\<close> reads them.
\<close>

theorem parse_xisf_header_geometry:
  "(map_of attrs ''geometry'' = None \<longrightarrow>
      parse_xisf_header xml_full (Some attrs) = Inl AttributeError)
   \<and> (\<forall>g. map_of attrs ''geometry'' = Some g \<and> \<not> geometry_form g \<longrightarrow>
          parse_xisf_header xml_full (Some attrs) = Inl ValueError)
   \<and> (\<forall>hd. parse_xisf_header xml_full (Some attrs) = Inr hd \<longrightarrow>
          (\<exists>g. map_of attrs ''geometry'' = Some g \<and> geometry_form g
             \<and> map py_int (py_split '':'' g) =
                 [Some (width hd), Some (height hd), Some (channels hd)]))"
proof -
  have 1: "parse_xisf_header xml_full (Some attrs) = Inl AttributeError"
    if "map_of attrs ''geometry'' = None"
    using that by (simp add: parse_xisf_header_Some)
  have 2: "parse_xisf_header xml_full (Some attrs) = Inl ValueError"
    if "map_of attrs ''geometry'' = Some g" "\<not> geometry_form g" for g
  proof -
    from that(2) obtain e where "parse_geometry g = Inl e"
      by (cases "parse_geometry g") (auto simp: geometry_form_iff)
    then have "parse_geometry g = Inl ValueError"
      using parse_geometry_Inl by blast
    then show ?thesis
      using that(1) by (simp add: parse_xisf_header_Some)
  qed
  have 3: "\<exists>g. map_of attrs ''geometry'' = Some g \<and> geometry_form g
             \<and> map py_int (py_split '':'' g) =
                 [Some (width hd), Some (height hd), Some (channels hd)]"
    if "parse_xisf_header xml_full (Some attrs) = Inr hd" for hd
    using that
    by (auto simp: parse_xisf_header_Some geometry_form_iff parse_geometry_Inr_iff [symmetric]
          split: option.splits sum.splits prod.splits if_splits)
  show ?thesis
    using 1 2 3 by blast
qed

theorem parse_xisf_header_geometry_witness:
  "map_of [(''geometry'', ''100:x:1'')] ''geometry'' = Some ''100:x:1''
   \<and> \<not> geometry_form ''100:x:1''
   \<and> parse_xisf_header [] (Some [(''geometry'', ''100:x:1'')]) = Inl ValueError
   \<and> map_of [(''location'', ''attachment:0:0'')] ''geometry'' = None
   \<and> parse_xisf_header [] (Some [(''location'', ''attachment:0:0'')]) = Inl AttributeError
   \<and> geometry_form ''0:-50:1''
   \<and> map py_int (py_split '':'' ''0:-50:1'') = [Some 0, Some (- 50), Some 1]"
  (is "?m1 \<and> ?g1 \<and> ?r1 \<and> ?m2 \<and> ?r2 \<and> ?g3 \<and> ?r3")
proof -
  have m1: ?m1 and m2: ?m2
    by simp_all
  have g1: ?g1
    by (simp add: geometry_form_def py_split_def py_int_eval)
  have r1: ?r1
    using parse_xisf_header_geometry [of "[(''geometry'', ''100:x:1'')]" "[]"] m1 g1 by blast
  have r2: ?r2
    using parse_xisf_header_geometry [of "[(''location'', ''attachment:0:0'')]" "[]"] m2 by blast
  note p3 = parse_xisf_header_nonpositive
  have "geometry_form ''0:-50:1'' \<and> map py_int (py_split '':'' ''0:-50:1'') = [Some 0, Some (- 50), Some 1]"
    using parse_xisf_header_geometry [of "[(''geometry'', ''0:-50:1''), (''sampleFormat'', ''UInt16''),
        (''compression'', ''none''), (''location'', ''attachment:128:0'')]" "[]"] p3 by auto
  then show ?thesis
    using m1 g1 r1 m2 r2 by blast
qed



subsection \<open>The stretch\<close>

lemma asinh_stretch_zero: "asinh_stretch v 0 = v"
  by (simp add: asinh_stretch_def)

lemma arsinh_mono:
  assumes "x \<le> (y::real)"
  shows "arsinh x \<le> arsinh y"
proof (cases "x < y")
  case True
  then have "arsinh x < arsinh y"
    by (rule arsinh_real_strict_mono)
  then show ?thesis by (rule less_imp_le)
next
  case False
  with assms have "x = y" by simp
  then show ?thesis by simp
qed

text \<open>
  C9. At stretch factor 0 the stretch returns its input, and for every stretch factor
  \<open>k \<ge> 0\<close> it is monotonically non-decreasing in the sample value. (Values are real
  numbers; see \<open>asinh_stretch\<close>.)
\<close>

theorem asinh_stretch_identity_mono:
  "asinh_stretch v 0 = v
   \<and> (0 \<le> k \<and> v \<le> v' \<longrightarrow> asinh_stretch v k \<le> asinh_stretch v' k)"
proof -
  have "asinh_stretch v k \<le> asinh_stretch v' k" if "0 \<le> k" "v \<le> v'"
  proof (cases "k = 0")
    case True
    then show ?thesis using that by (simp add: asinh_stretch_def)
  next
    case False
    with that have k: "0 < k" by simp
    then have "v * k \<le> v' * k" using that by (simp add: mult_right_mono)
    then have "arsinh (v * k) \<le> arsinh (v' * k)" by (rule arsinh_mono)
    moreover have "0 \<le> arsinh k"
      using arsinh_mono [of 0 k] k by simp
    ultimately have "arsinh (v * k) / arsinh k \<le> arsinh (v' * k) / arsinh k"
      by (rule divide_right_mono)
    then show ?thesis using k by (simp add: asinh_stretch_def)
  qed
  then show ?thesis by (simp add: asinh_stretch_zero)
qed

theorem asinh_stretch_identity_mono_witness:
  "(0::real) \<le> 2 \<and> (1/4 :: real) \<le> 1/2 \<and> asinh_stretch (1/4) 0 = 1/4
   \<and> asinh_stretch (1/4) 2 \<le> asinh_stretch (1/2) 2"
  using asinh_stretch_identity_mono [of "1/4" 2 "1/2"] by simp


subsection \<open>The display\<close>

lemma update_display_image_Inr:
  "\<exists>r. update_display_image tone scale8 p v = Inr r"
  by (simp add: update_display_image_def Let_def split: option.splits)

lemma np_clip_unit: "0 \<le> x \<Longrightarrow> x \<le> 1 \<Longrightarrow> np_clip x 0 1 = x"
  by (simp add: np_clip_def)

lemma tone_map_neutral:
  assumes "0 \<le> x" and "x \<le> 1"
  shows "tone_map (0, 1, 1, 1) x = x"
proof -
  have t1: "asinh_stretch x 0 = x"
    by (simp add: asinh_stretch_def)
  have t2: "x powr (if (1::real) \<noteq> 0 then 1 / 1 else 1) = x"
    using assms(1) by simp
  have t3: "np_clip (x * 1) 0 1 = x"
    using assms by (simp add: np_clip_unit)
  have t4: "np_clip ((x - 0.5) * 1 + 0.5) 0 1 = x"
    using assms by (simp add: np_clip_unit)
  show ?thesis
    unfolding tone_map_def prod.case Let_def t1 t2 t3 t4 ..
qed

lemma scale_uint8_0: "scale_uint8 0 = 0" and scale_uint8_1: "scale_uint8 1 = 255"
  by (simp_all add: scale_uint8_def np_clip_def)


text \<open>
  C8, as the claim states it, does not hold: an array of shape \<open>(3, 1, 2)\<close>, as a FITS
  file with three colour planes of one row and two columns yields it, is neither
  two-dimensional nor has it three channels on its last axis. \<^verbatim>\<open>update_display_image\<close>
  empties the label and returns; no exception is raised and no error is shown.
\<close>

theorem update_display_image_counterexample:
  "update_display_image tone_map scale_uint8 (0, 1, 1, 1)
     \<lparr>cache = [], original_img_norm = Some \<lparr>shape = [3, 1, 2], elems = [0, 1, 0, 1, 1, 0]\<rparr>,
      cached_transformed = None, last_transform_params = None, displaying_preview = False,
      current_file = Some ''rgb.fits'', preview_cache = []\<rparr>
   = Inr (\<lparr>cache = [], original_img_norm = Some \<lparr>shape = [3, 1, 2], elems = [0, 1, 0, 1, 1, 0]\<rparr>,
      cached_transformed = Some \<lparr>shape = [3, 1, 2], elems = [0, 1, 0, 1, 1, 0]\<rparr>,
      last_transform_params = Some (0, 1, 1, 1), displaying_preview = False,
      current_file = Some ''rgb.fits'', preview_cache = []\<rparr>, LabelCleared)"
  by (simp add: update_display_image_def map_elems_def Let_def tone_map_neutral)


text \<open>
  C8, amended. When no preview is shown and the tone-mapped array is computed afresh
  from the image \<open>img\<close>, a two-dimensional array is handed to \<^verbatim>\<open>Image.fromarray\<close> in
  mode \<^verbatim>\<open>L\<close> and a three-dimensional array with exactly 3 channels in mode \<^verbatim>\<open>RGB\<close>,
  with the same computation \<open>scale8 (tone p x)\<close> on every element; for every other array
  the label is emptied and the function returns without an error.
\<close>

theorem update_display_image_shapes:
  assumes "\<not> shows_preview v" and "original_img_norm v = Some img"
    and "cached_transformed v = None"
  shows "update_display_image tone scale8 p v =
         Inr (v\<lparr>cached_transformed := Some (map_elems (tone p) img),
                last_transform_params := Some p\<rparr>,
              if length (shape img) = 2
              then Fromarray L \<lparr>shape = shape img, elems = map (\<lambda>x. scale8 (tone p x)) (elems img)\<rparr>
              else if length (shape img) = 3 \<and> shape img ! 2 = 3
              then Fromarray RGB \<lparr>shape = shape img, elems = map (\<lambda>x. scale8 (tone p x)) (elems img)\<rparr>
              else LabelCleared)"
  using assms
  by (simp add: update_display_image_def shows_preview_def map_elems_def Let_def
        split: option.splits)

theorem update_display_image_shapes_witness:
  "\<not> shows_preview \<lparr>cache = [], original_img_norm = Some \<lparr>shape = [1, 2], elems = [0, 1]\<rparr>,
      cached_transformed = None, last_transform_params = None, displaying_preview = False,
      current_file = Some ''m31.xisf'', preview_cache = []\<rparr>
   \<and> update_display_image tone_map scale_uint8 (0, 1, 1, 1)
     \<lparr>cache = [], original_img_norm = Some \<lparr>shape = [1, 2], elems = [0, 1]\<rparr>,
      cached_transformed = None, last_transform_params = None, displaying_preview = False,
      current_file = Some ''m31.xisf'', preview_cache = []\<rparr>
   = Inr (\<lparr>cache = [], original_img_norm = Some \<lparr>shape = [1, 2], elems = [0, 1]\<rparr>,
      cached_transformed = Some \<lparr>shape = [1, 2], elems = [0, 1]\<rparr>,
      last_transform_params = Some (0, 1, 1, 1), displaying_preview = False,
      current_file = Some ''m31.xisf'', preview_cache = []\<rparr>,
      Fromarray L \<lparr>shape = [1, 2], elems = [0, 255]\<rparr>)"
  using update_display_image_shapes [of
     "\<lparr>cache = [], original_img_norm = Some \<lparr>shape = [1, 2], elems = [0, 1]\<rparr>,
      cached_transformed = None, last_transform_params = None, displaying_preview = False,
      current_file = Some ''m31.xisf'', preview_cache = []\<rparr>"
     "\<lparr>shape = [1, 2], elems = [0, 1]\<rparr>" tone_map scale_uint8 "(0, 1, 1, 1)"]
  by (simp add: shows_preview_def map_elems_def tone_map_neutral scale_uint8_0 scale_uint8_1)


subsection \<open>The cache\<close>

lemma update_display_image_cache:
  "\<exists>v' d. update_display_image tone scale8 p v = Inr (v', d) \<and> cache v' = cache v"
  by (simp add: update_display_image_def Let_def split: option.splits)

lemma cache_cache_insert: "cache (cache_insert f img v) = trim (od_setitem f img (cache v))"
  by (simp add: cache_insert_def trim_def Let_def)

lemma load_file_cache:
  "\<exists>v' d. load_file tone scale8 p r v = Inr (v', d) \<and> cache v' = cache_after r (cache v)"
proof (cases r)
  case (LoadXisf f dec)
  show ?thesis
  proof (cases "f \<in> set (map fst (cache v))")
    case True
    then show ?thesis
      using LoadXisf update_display_image_cache [of tone scale8 p
          "v\<lparr>original_img_norm := map_of (cache v) f, cached_transformed := None, last_transform_params := None\<rparr>"]
      by (auto simp: load_xisf_file_def cache_after_def)
  next
    case False
    show ?thesis
    proof (cases dec)
      case (Inl e)
      then show ?thesis using LoadXisf False by (simp add: load_xisf_file_def cache_after_def)
    next
      case (Inr img)
      let ?v1 = "cache_insert f img (v\<lparr>original_img_norm := Some img, cached_transformed := None, last_transform_params := None\<rparr>)"
      obtain v' d where "update_display_image tone scale8 p ?v1 = Inr (v', d)" "cache v' = cache ?v1"
        using update_display_image_cache by blast
      then show ?thesis
        using LoadXisf False Inr by (simp add: load_xisf_file_def cache_after_def Let_def cache_cache_insert)
    qed
  qed
next
  case (LoadFits f dec)
  show ?thesis
  proof (cases "f \<in> set (map fst (cache v))")
    case True
    then show ?thesis
      using LoadFits update_display_image_cache [of tone scale8 p
          "v\<lparr>original_img_norm := map_of (cache v) f, cached_transformed := None, last_transform_params := None\<rparr>"]
      by (auto simp: load_fits_file_def cache_after_def)
  next
    case False
    show ?thesis
    proof (cases dec)
      case (Inl e)
      then show ?thesis using LoadFits False by (simp add: load_fits_file_def cache_after_def)
    next
      case (Inr opt)
      show ?thesis
      proof (cases opt)
        case None
        then show ?thesis using LoadFits False Inr by (simp add: load_fits_file_def cache_after_def)
      next
        case (Some img)
        let ?v1 = "cache_insert f img (v\<lparr>original_img_norm := Some img, cached_transformed := None, last_transform_params := None\<rparr>)"
        obtain v' d where "update_display_image tone scale8 p ?v1 = Inr (v', d)" "cache v' = cache ?v1"
          using update_display_image_cache by blast
        then show ?thesis
          using LoadFits False Inr Some
          by (simp add: load_fits_file_def cache_after_def Let_def cache_cache_insert)
      qed
    qed
  qed
qed

lemma load_files_cache:
  "\<exists>v'. load_files tone scale8 p rs v = Inr v' \<and> cache v' = fold cache_after rs (cache v)"
proof (induction rs arbitrary: v)
  case Nil
  then show ?case by simp
next
  case (Cons r rs)
  obtain v1 d where 1: "load_file tone scale8 p r v = Inr (v1, d)" "cache v1 = cache_after r (cache v)"
    using load_file_cache by blast
  with Cons.IH [of v1] show ?case by simp
qed

lemma length_od_setitem: "length (od_setitem k x c) \<le> Suc (length c)"
  by (simp add: od_setitem_def)

lemma length_cache_after: "length c \<le> 5 \<Longrightarrow> length (cache_after r c) \<le> 5"
proof -
  have t: "length (trim (od_setitem f img c)) \<le> 5" if "length c \<le> 5" for f and img :: "'a ndarray"
    using length_od_setitem [of f img c] that
    by (cases "od_setitem f img c") (auto simp: trim_def)
  assume "length c \<le> 5"
  then show ?thesis
    by (auto simp: cache_after_def t split: request.splits sum.splits option.splits)
qed

lemma length_fold_cache_after: "length c \<le> 5 \<Longrightarrow> length (fold cache_after rs c) \<le> 5"
  by (induction rs arbitrary: c) (auto simp: length_cache_after)

lemma cache_never_exceeds_capacity:
  "load_files tone scale8 p rs init_viewer = Inr v \<Longrightarrow> length (cache v) \<le> 5"
  using load_files_cache [of tone scale8 p rs init_viewer] length_fold_cache_after [of "[]" rs]
  by (auto simp: init_viewer_def)

lemma cache_after_miss:
  "f \<notin> set (map fst c) \<Longrightarrow> cache_after (LoadFits f (Inr (Some img))) c = trim (c @ [(f, img)])"
  "f \<notin> set (map fst c) \<Longrightarrow> cache_after (LoadXisf f (Inr img)) c = trim (c @ [(f, img)])"
  by (simp_all add: cache_after_def od_setitem_def)

lemma cache_after_hit:
  "f \<in> set (map fst c) \<Longrightarrow> cache_after (LoadFits f d) c = c"
  "f \<in> set (map fst c) \<Longrightarrow> cache_after (LoadXisf f d') c = c"
  by (simp_all add: cache_after_def)

text \<open>
  C5. The cache is not a least-recently-used cache: reading an image from the cache does
  not renew its entry. In the run below \<^verbatim>\<open>a.fits\<close> is loaded first and shown again from
  the cache after four other files; the next load then removes \<^verbatim>\<open>a.fits\<close>, the entry
  used last, and keeps \<^verbatim>\<open>b.fits\<close>, the entry unused for longest.
\<close>

theorem cache_evicts_by_insertion_order:
  "\<exists>v. load_files tone scale8 p
     [LoadFits ''a.fits'' (Inr (Some ia)), LoadFits ''b.fits'' (Inr (Some ib)),
      LoadFits ''c.fits'' (Inr (Some ic)), LoadXisf ''d.xisf'' (Inr id'),
      LoadXisf ''e.xisf'' (Inr ie), LoadFits ''a.fits'' (Inr (Some ia)),
      LoadXisf ''f.xisf'' (Inr if')] init_viewer = Inr v
   \<and> map fst (cache v) = [''b.fits'', ''c.fits'', ''d.xisf'', ''e.xisf'', ''f.xisf'']"
proof -
  let ?rs = "[LoadFits ''a.fits'' (Inr (Some ia)), LoadFits ''b.fits'' (Inr (Some ib)),
      LoadFits ''c.fits'' (Inr (Some ic)), LoadXisf ''d.xisf'' (Inr id'),
      LoadXisf ''e.xisf'' (Inr ie), LoadFits ''a.fits'' (Inr (Some ia)),
      LoadXisf ''f.xisf'' (Inr if')]"
  have "map fst (fold cache_after ?rs []) = [''b.fits'', ''c.fits'', ''d.xisf'', ''e.xisf'', ''f.xisf'']"
    by (simp add: cache_after_miss cache_after_hit trim_def)
  then show ?thesis
    using load_files_cache [of tone scale8 p ?rs init_viewer]
    by (auto simp: init_viewer_def)
qed


end
